theory Spec2Isabelle
  imports Complex_Main
begin

section \<open>Movie Discovery Platform: the query and pagination core of app.js\<close>

text \<open>
  The application is a single mutable \<open>state\<close> object, a handful of event handlers that
  mutate it, and asynchronous functions (\<open>fetchFromTMDB\<close>, \<open>loadGenres\<close>,
  \<open>loadMovies\<close>, \<open>init\<close>) that suspend at an \<open>await\<close>. The embedding passes the
  state explicitly. An asynchronous function is split at its suspension point into the part that runs synchronously when it
  is called (\<open>_begin\<close>) and the part that runs when the awaited promise settles
  (\<open>_resume\<close>). Calls into the DOM are recorded, in source order, as a list of effects.

  JavaScript values are modelled as follows. Page numbers are \<open>int\<close> (the remote API
  reports integral page counts). A rating is a number parsed from JSON, hence a finite
  double, hence a rational; comparing it with 7.5 or 6 is exact. The text of the search
  box is a list of UTF-16 code units, because \<open>trim\<close> looks at the characters; every
  other string is only compared and tested for emptiness and is a \<open>string\<close>. A string
  is falsy exactly when it is empty. A JSON field that may be missing is \<open>undefined\<close> or
  \<open>null\<close>.
\<close>

subsection \<open>Configuration and state (lines 10-23)\<close>

type_synonym code_unit = nat

record app_state =
  currentCategory :: string
  currentPage :: int
  totalPages :: int
  searchQuery :: "code_unit list"
  selectedGenre :: string
  genres :: "(int \<times> string) list"
  isLoading :: bool

definition initial_state :: app_state where
  "initial_state =
     \<lparr>currentCategory = ''trending'', currentPage = 1, totalPages = 1, searchQuery = [],
      selectedGenre = [], genres = [], isLoading = False\<rparr>"

subsection \<open>JavaScript values\<close>

text \<open>A numeric JSON field: missing (\<open>undefined\<close>), \<open>null\<close>, or a number.\<close>

datatype jsnum = Undefined | Null | Num rat

text \<open>\<open>ToBoolean\<close>: \<open>undefined\<close>, \<open>null\<close> and \<open>0\<close> are falsy.\<close>

fun truthy_num :: "jsnum \<Rightarrow> bool" where
  "truthy_num Undefined = False"
| "truthy_num Null = False"
| "truthy_num (Num x) = (x \<noteq> 0)"

text \<open>
  \<open>v >= c\<close> for a numeric constant \<open>c\<close>: \<open>undefined\<close> converts to \<open>NaN\<close>,
  and every comparison with \<open>NaN\<close> is false; \<open>null\<close> converts to \<open>0\<close>.
\<close>

fun js_ge :: "jsnum \<Rightarrow> rat \<Rightarrow> bool" where
  "js_ge Undefined c = False"
| "js_ge Null c = (0 \<ge> c)"
| "js_ge (Num x) c = (x \<ge> c)"

text \<open>Every value thrown in app.js is an \<open>Error\<close> carrying a message.\<close>

datatype js_error = Error string

fun message :: "js_error \<Rightarrow> string" where
  "message (Error m) = m"

text \<open>Decimal rendering of a number inside a template literal.\<close>

fun string_of_nat :: "nat \<Rightarrow> string" where
  "string_of_nat n =
     (if n < 10 then [''0123456789'' ! n]
      else string_of_nat (n div 10) @ [''0123456789'' ! (n mod 10)])"

definition string_of_int :: "int \<Rightarrow> string" where
  "string_of_int i = (if i < 0 then CHR ''-'' # string_of_nat (nat (- i)) else string_of_nat (nat i))"

text \<open>The code units of a text written in ASCII.\<close>

definition utf16 :: "string \<Rightarrow> code_unit list" where
  "utf16 s = map of_char s"

text \<open>
  \<open>String.prototype.trim\<close> removes the ECMAScript \<open>WhiteSpace\<close> and \<open>LineTerminator\<close>
  code points from both ends: TAB, LF, VT, FF, CR, SPACE, NO-BREAK SPACE, U+1680,
  U+2000 to U+200A, U+2028, U+2029, U+202F, U+205F, U+3000 and U+FEFF. All of them are
  single code units.
\<close>

definition is_whitespace :: "code_unit \<Rightarrow> bool" where
  "is_whitespace c =
     (c \<in> set [0x0009, 0x000A, 0x000B, 0x000C, 0x000D, 0x0020, 0x00A0, 0x1680,
               0x2000, 0x2001, 0x2002, 0x2003, 0x2004, 0x2005, 0x2006, 0x2007, 0x2008,
               0x2009, 0x200A, 0x2028, 0x2029, 0x202F, 0x205F, 0x3000, 0xFEFF])"

definition trim :: "code_unit list \<Rightarrow> code_unit list" where
  "trim s = rev (dropWhile is_whitespace (rev (dropWhile is_whitespace s)))"

subsection \<open>debounce (lines 35-41)\<close>

text \<open>
  The timeouts of the host are a table: \<open>setTimeout\<close> enters a timeout under a fresh
  identifier and returns the identifier, \<open>clearTimeout\<close> removes the timeout with the
  given identifier, if there is one. A timeout is its identifier, the time at which it is
  due and the arguments its callback passes to \<open>func\<close>. Time is a logical clock in
  milliseconds.
\<close>

type_synonym 'a timeout = "nat \<times> nat \<times> 'a"

record 'a timers =
  next_id :: nat
  pending :: "'a timeout list"

definition no_timers :: "'a timers" where
  "no_timers = \<lparr>next_id = 1, pending = []\<rparr>"

definition setTimeout :: "nat \<Rightarrow> 'a \<Rightarrow> nat \<Rightarrow> 'a timers \<Rightarrow> nat \<times> 'a timers" where
  "setTimeout now args delay h =
     (next_id h,
      h\<lparr>next_id := Suc (next_id h), pending := pending h @ [(next_id h, now + delay, args)]\<rparr>)"

text \<open>\<open>clearTimeout(undefined)\<close> does nothing.\<close>

definition clearTimeout :: "nat option \<Rightarrow> 'a timers \<Rightarrow> 'a timers" where
  "clearTimeout timeoutId h =
     (case timeoutId of
        None \<Rightarrow> h
      | Some i \<Rightarrow> h\<lparr>pending := filter (\<lambda>e. fst e \<noteq> i) (pending h)\<rparr>)"

text \<open>
  The function that \<open>debounce(func, delay)\<close> returns, called at time \<open>now\<close>. Its closure
  variable \<open>timeoutId\<close> is unset at first and then holds the identifier that the last
  \<open>setTimeout\<close> returned.
\<close>

definition debounce ::
  "nat \<Rightarrow> nat \<Rightarrow> 'a \<Rightarrow> nat option \<times> 'a timers \<Rightarrow> nat option \<times> 'a timers" where
  "debounce delay now args c =
     (case c of (timeoutId, h) \<Rightarrow>
        (case setTimeout now args delay (clearTimeout timeoutId h) of
           (i, h') \<Rightarrow> (Some i, h')))"

text \<open>
  The timeouts that are due by time \<open>t\<close> run in the order of their due times; they leave
  the table.
\<close>

definition expired :: "nat \<Rightarrow> 'a timers \<Rightarrow> (nat \<times> 'a) list" where
  "expired t h = sort_key fst (map snd (filter (\<lambda>e. fst (snd e) \<le> t) (pending h)))"

definition expire :: "nat \<Rightarrow> 'a timers \<Rightarrow> 'a timers" where
  "expire t h = h\<lparr>pending := filter (\<lambda>e. \<not> fst (snd e) \<le> t) (pending h)\<rparr>"

text \<open>
  The event loop over a list of calls \<open>(t, args)\<close> of the debounced function, in order of
  time: the timeouts due no later than the next call run first; when no call is left the
  timeouts still in the table run. The result lists the invocations of \<open>func\<close>, each
  with its time and arguments.
\<close>

fun run_debounced ::
  "nat \<Rightarrow> nat option \<times> 'a timers \<Rightarrow> (nat \<times> 'a) list \<Rightarrow> (nat \<times> 'a) list" where
  "run_debounced delay (timeoutId, h) [] = sort_key fst (map snd (pending h))"
| "run_debounced delay (timeoutId, h) ((t, args) # calls) =
     expired t h @ run_debounced delay (debounce delay t args (timeoutId, expire t h)) calls"

subsection \<open>fetchFromTMDB (lines 49-69)\<close>

datatype param_value = PNum int | PStr string | PText "code_unit list"

type_synonym params = "(string \<times> param_value) list"

text \<open>
  The outbound request: the endpoint appended to \<open>TMDB_BASE_URL\<close>, the query parameters
  in insertion order (their URL encoding is not modelled) and the bearer token of the
  \<open>Authorization\<close> header.
\<close>

record request =
  endpoint :: string
  query :: params
  bearer :: string

text \<open>
  \<open>window.TMDB_TOKEN\<close> is unset (\<open>None\<close>) or a string; \<open>!window.TMDB_TOKEN\<close> holds for
  an unset and for an empty token. Up to the first \<open>await\<close>: either the promise is
  rejected before \<open>fetch\<close> is called (\<open>Inl\<close>), or \<open>fetch\<close> is called with the
  request (\<open>Inr\<close>).
\<close>

definition fetchFromTMDB_begin :: "string option \<Rightarrow> string \<Rightarrow> params \<Rightarrow> js_error + request" where
  "fetchFromTMDB_begin tok ep ps =
     (case tok of
        None \<Rightarrow> Inl (Error ''TMDB API token not found. Please set window.TMDB_TOKEN'')
      | Some t \<Rightarrow>
          if t = [] then Inl (Error ''TMDB API token not found. Please set window.TMDB_TOKEN'')
          else Inr \<lparr>endpoint = ep, query = ps, bearer = t\<rparr>)"

text \<open>
  What \<open>fetch\<close> settles with: a rejection (network failure), or a response with its
  status, status text and the outcome of \<open>response.json()\<close>.
\<close>

datatype 'd response = NetworkFailure string | HttpResponse nat string "js_error + 'd"

definition response_ok :: "nat \<Rightarrow> bool" where
  "response_ok status = (200 \<le> status \<and> status \<le> 299)"

fun fetchFromTMDB_resume :: "'d response \<Rightarrow> js_error + 'd" where
  "fetchFromTMDB_resume (NetworkFailure m) = Inl (Error m)"
| "fetchFromTMDB_resume (HttpResponse status statusText body) =
     (if \<not> response_ok status
      then Inl (Error (''TMDB API Error: '' @ string_of_nat status @ '' '' @ statusText))
      else body)"

subsection \<open>Rating helpers (lines 87-100) and their use in renderMovies (lines 172-173)\<close>

text \<open>\<open>Number.prototype.toFixed(1)\<close> is a function of the host; it is a parameter.\<close>

definition formatRating :: "(rat \<Rightarrow> string) \<Rightarrow> jsnum \<Rightarrow> string" where
  "formatRating toFixed1 voteAverage =
     (if truthy_num voteAverage
      then (case voteAverage of Num x \<Rightarrow> toFixed1 x | _ \<Rightarrow> ''N/A'')
      else ''N/A'')"

definition getRatingColor :: "jsnum \<Rightarrow> string" where
  "getRatingColor rating =
     (if js_ge rating 7.5 then ''text-green-400''
      else if js_ge rating 6 then ''text-yellow-400''
      else ''text-red-400'')"

record movie =
  title :: string
  poster_path :: "string option"
  release_date :: "string option"
  overview :: "string option"
  vote_average :: jsnum

text \<open>The badge of one card: the colour class of the star and the text, and the text itself.\<close>

definition ratingBadge :: "(rat \<Rightarrow> string) \<Rightarrow> movie \<Rightarrow> string \<times> string" where
  "ratingBadge toFixed1 m =
     (let rating = formatRating toFixed1 (vote_average m);
          ratingColor = getRatingColor (vote_average m)
      in (ratingColor, rating))"

subsection \<open>DOM effects (lines 111-216)\<close>

datatype effect =
    ShowStatus string string
  | HideStatus
  | RenderSkeletons nat
  | RenderMovies "movie list option"
  | ClearGrid
  | UpdatePaginationUI string bool bool
  | ClearSearchInput
  | ScrollToTop
  | ConsoleError string
  | PopulateGenres "(int \<times> string) list"

text \<open>\<open>updatePaginationUI\<close>: the page label and the disabled flags of the two buttons.\<close>

definition updatePaginationUI :: "app_state \<Rightarrow> effect" where
  "updatePaginationUI s =
     UpdatePaginationUI
       (''Page '' @ string_of_int (currentPage s) @ '' of '' @ string_of_int (totalPages s))
       (currentPage s = 1 \<or> isLoading s)
       (currentPage s \<ge> totalPages s \<or> isLoading s)"

subsection \<open>loadMovies (lines 246-305)\<close>

record page_data =
  results :: "movie list option"
  total_pages :: "int option"

text \<open>Lines 255-283: the endpoint and the parameters derived from the state.\<close>

definition loadMovies_endpoint :: "app_state \<Rightarrow> string" where
  "loadMovies_endpoint s =
     (if searchQuery s \<noteq> [] then ''/search/movie''
      else if currentCategory s = ''trending'' then ''/trending/movie/week''
      else if currentCategory s = ''popular'' then ''/movie/popular''
      else if currentCategory s = ''top_rated'' then ''/movie/top_rated''
      else ''/trending/movie/week'')"

definition loadMovies_params :: "app_state \<Rightarrow> params" where
  "loadMovies_params s =
     [(''page'', PNum (currentPage s))]
     @ (if searchQuery s \<noteq> [] then [(''query'', PText (searchQuery s))] else [])
     @ (if selectedGenre s \<noteq> [] then [(''with_genres'', PStr (selectedGenre s))] else [])"

text \<open>
  The synchronous part. The third component is \<open>None\<close> when the call returned at the
  \<open>isLoading\<close> guard, and otherwise what \<open>fetchFromTMDB\<close> did.
\<close>

definition loadMovies_begin ::
  "string option \<Rightarrow> app_state \<Rightarrow> app_state \<times> effect list \<times> (js_error + request) option" where
  "loadMovies_begin tok s =
     (if isLoading s then (s, [], None)
      else
        let s1 = s\<lparr>isLoading := True\<rparr>
        in (s1,
            [RenderSkeletons 12, HideStatus, updatePaginationUI s1],
            Some (fetchFromTMDB_begin tok (loadMovies_endpoint s1) (loadMovies_params s1))))"

text \<open>\<open>Math.min(data.total_pages || 1, 500)\<close>.\<close>

definition clamp_total_pages :: "int option \<Rightarrow> int" where
  "clamp_total_pages tp =
     min (case tp of None \<Rightarrow> 1 | Some n \<Rightarrow> if n = 0 then 1 else n) 500"

text \<open>After the \<open>await\<close>: the \<open>try\<close> continues or the \<open>catch\<close> runs, then \<open>finally\<close>.\<close>

fun loadMovies_resume :: "app_state \<Rightarrow> js_error + page_data \<Rightarrow> app_state \<times> effect list" where
  "loadMovies_resume s (Inr data) =
     (let s1 = s\<lparr>totalPages := clamp_total_pages (total_pages data)\<rparr>;
          s2 = s1\<lparr>isLoading := False\<rparr>
      in (s2, [RenderMovies (results data), updatePaginationUI s1, updatePaginationUI s2]))"
| "loadMovies_resume s (Inl err) =
     (let s2 = s\<lparr>isLoading := False\<rparr>
      in (s2,
          [ConsoleError ''Failed to load movies:'',
           ShowStatus
             (if message err \<noteq> [] then message err
              else ''Failed to load movies. Please check your API token and try again.'')
             ''error'',
           ClearGrid,
           updatePaginationUI s2]))"

subsection \<open>Event handlers (lines 310-349)\<close>

text \<open>The function wrapped by \<open>debounce\<close> in \<open>handleSearch\<close>: it runs when the timeout fires.\<close>

definition handleSearch ::
  "string option \<Rightarrow> code_unit list \<Rightarrow> app_state \<Rightarrow> app_state \<times> effect list \<times> (js_error + request) option" where
  "handleSearch tok q s =
     loadMovies_begin tok (s\<lparr>searchQuery := trim q, currentPage := 1\<rparr>)"

definition handleCategoryChange ::
  "string option \<Rightarrow> string \<Rightarrow> app_state \<Rightarrow> app_state \<times> effect list \<times> (js_error + request) option" where
  "handleCategoryChange tok category s =
     (case loadMovies_begin tok (s\<lparr>currentCategory := category, searchQuery := [], currentPage := 1\<rparr>) of
        (s', effs, call) \<Rightarrow> (s', ClearSearchInput # effs, call))"

definition handleGenreChange ::
  "string option \<Rightarrow> string \<Rightarrow> app_state \<Rightarrow> app_state \<times> effect list \<times> (js_error + request) option" where
  "handleGenreChange tok genreId s =
     loadMovies_begin tok (s\<lparr>selectedGenre := genreId, currentPage := 1\<rparr>)"

definition goToPage ::
  "string option \<Rightarrow> string \<Rightarrow> app_state \<Rightarrow> app_state \<times> effect list \<times> (js_error + request) option" where
  "goToPage tok direction s =
     (if direction = ''next'' \<and> currentPage s < totalPages s then
        (case loadMovies_begin tok (s\<lparr>currentPage := currentPage s + 1\<rparr>) of
           (s', effs, call) \<Rightarrow> (s', effs @ [ScrollToTop], call))
      else if direction = ''prev'' \<and> currentPage s > 1 then
        (case loadMovies_begin tok (s\<lparr>currentPage := currentPage s - 1\<rparr>) of
           (s', effs, call) \<Rightarrow> (s', effs @ [ScrollToTop], call))
      else (s, [], None))"

subsection \<open>loadGenres (lines 225-241) and init (lines 388-404)\<close>

definition loadGenres_begin :: "string option \<Rightarrow> js_error + request" where
  "loadGenres_begin tok = fetchFromTMDB_begin tok ''/genre/movie/list'' []"

fun loadGenres_resume :: "app_state \<Rightarrow> js_error + (int \<times> string) list \<Rightarrow> app_state \<times> effect list" where
  "loadGenres_resume s (Inr gs) = (s\<lparr>genres := gs\<rparr>, [PopulateGenres gs])"
| "loadGenres_resume s (Inl err) = (s, [ConsoleError ''Failed to load genres:''])"

text \<open>
  \<open>init\<close> up to its first \<open>await\<close>: the effects, whether the event listeners were
  installed, and what the call of \<open>fetchFromTMDB\<close> inside \<open>loadGenres\<close> did, if it
  was reached.
\<close>

definition init_begin :: "string option \<Rightarrow> effect list \<times> bool \<times> (js_error + request) option" where
  "init_begin tok =
     (case tok of
        None \<Rightarrow>
          ([ShowStatus ''TMDB API token not configured. Please set window.TMDB_TOKEN in your browser console or configuration.'' ''error''],
           False, None)
      | Some t \<Rightarrow>
          if t = [] then
            ([ShowStatus ''TMDB API token not configured. Please set window.TMDB_TOKEN in your browser console or configuration.'' ''error''],
             False, None)
          else ([], True, Some (loadGenres_begin tok)))"

subsection \<open>The running page\<close>

text \<open>
  The page as a transition system. Each event handler and each continuation after an
  \<open>await\<close> runs to completion. The configuration holds the state object, the token,
  whether the listeners are installed, the request of \<open>loadGenres\<close> while \<open>init\<close>
  waits for it, the requests issued by \<open>loadMovies\<close> that have not settled, the
  disabled flags of the two pagination buttons and the effects so far. A disabled button
  dispatches no click.
\<close>

record sys =
  app :: app_state
  tmdb_token :: "string option"
  listening :: bool
  genres_request :: "request option"
  movies_requests :: "request list"
  prevBtn_disabled :: bool
  nextBtn_disabled :: bool
  effects :: "effect list"

fun apply_effect :: "sys \<Rightarrow> effect \<Rightarrow> sys" where
  "apply_effect \<sigma> (UpdatePaginationUI info p n) =
     \<sigma>\<lparr>prevBtn_disabled := p, nextBtn_disabled := n,
       effects := effects \<sigma> @ [UpdatePaginationUI info p n]\<rparr>"
| "apply_effect \<sigma> e = \<sigma>\<lparr>effects := effects \<sigma> @ [e]\<rparr>"

definition apply_effects :: "sys \<Rightarrow> effect list \<Rightarrow> sys" where
  "apply_effects \<sigma> effs = foldl apply_effect \<sigma> effs"

text \<open>
  After a handler that may have called \<open>loadMovies\<close>: a request that went out is now
  pending; a promise rejected before any request went out resumes \<open>loadMovies\<close> in the
  microtask that follows the handler.
\<close>

definition settle :: "sys \<Rightarrow> app_state \<times> effect list \<times> (js_error + request) option \<Rightarrow> sys" where
  "settle \<sigma> r =
     (case r of
        (s', effs, None) \<Rightarrow> apply_effects (\<sigma>\<lparr>app := s'\<rparr>) effs
      | (s', effs, Some (Inr req)) \<Rightarrow>
          apply_effects (\<sigma>\<lparr>app := s', movies_requests := movies_requests \<sigma> @ [req]\<rparr>) effs
      | (s', effs, Some (Inl err)) \<Rightarrow>
          (case loadMovies_resume s' (Inl err) of
             (s'', effs') \<Rightarrow> apply_effects (\<sigma>\<lparr>app := s''\<rparr>) (effs @ effs')))"

datatype event =
    SearchFires "code_unit list"
  | CategorySelected string
  | GenreSelected string
  | ClickPrev
  | ClickNext
  | GenresSettle "(int \<times> string) list response"
  | MoviesSettle "page_data response"

text \<open>
  The page after \<open>init\<close> has run to its first \<open>await\<close>. The initial flags of the two
  buttons come from the markup, which is a parameter. Where \<open>init\<close> reaches
  \<open>loadGenres\<close> the token is set, so that call always issues its request.
\<close>

definition boot :: "string option \<Rightarrow> bool \<Rightarrow> bool \<Rightarrow> sys" where
  "boot tok prev0 next0 =
     (case init_begin tok of
        (effs, l, call) \<Rightarrow>
          apply_effects
            \<lparr>app = initial_state, tmdb_token = tok, listening = l,
             genres_request = (case call of Some (Inr req) \<Rightarrow> Some req | _ \<Rightarrow> None),
             movies_requests = [], prevBtn_disabled = prev0, nextBtn_disabled = next0,
             effects = []\<rparr>
            effs)"

fun step :: "sys \<Rightarrow> event \<Rightarrow> sys" where
  "step \<sigma> (SearchFires q) =
     (if listening \<sigma> then settle \<sigma> (handleSearch (tmdb_token \<sigma>) q (app \<sigma>)) else \<sigma>)"
| "step \<sigma> (CategorySelected c) =
     (if listening \<sigma> then settle \<sigma> (handleCategoryChange (tmdb_token \<sigma>) c (app \<sigma>)) else \<sigma>)"
| "step \<sigma> (GenreSelected g) =
     (if listening \<sigma> then settle \<sigma> (handleGenreChange (tmdb_token \<sigma>) g (app \<sigma>)) else \<sigma>)"
| "step \<sigma> ClickPrev =
     (if listening \<sigma> \<and> \<not> prevBtn_disabled \<sigma>
      then settle \<sigma> (goToPage (tmdb_token \<sigma>) ''prev'' (app \<sigma>)) else \<sigma>)"
| "step \<sigma> ClickNext =
     (if listening \<sigma> \<and> \<not> nextBtn_disabled \<sigma>
      then settle \<sigma> (goToPage (tmdb_token \<sigma>) ''next'' (app \<sigma>)) else \<sigma>)"
| "step \<sigma> (GenresSettle r) =
     (case genres_request \<sigma> of
        None \<Rightarrow> \<sigma>
      | Some req \<Rightarrow>
          (case loadGenres_resume (app \<sigma>) (fetchFromTMDB_resume r) of
             (s1, effs1) \<Rightarrow>
               settle (apply_effects (\<sigma>\<lparr>app := s1, genres_request := None\<rparr>) effs1)
                 (loadMovies_begin (tmdb_token \<sigma>) s1)))"
| "step \<sigma> (MoviesSettle r) =
     (case movies_requests \<sigma> of
        [] \<Rightarrow> \<sigma>
      | req # rest \<Rightarrow>
          (case loadMovies_resume (app \<sigma>) (fetchFromTMDB_resume r) of
             (s', effs) \<Rightarrow> apply_effects (\<sigma>\<lparr>app := s', movies_requests := rest\<rparr>) effs))"

definition run :: "sys \<Rightarrow> event list \<Rightarrow> sys" where
  "run \<sigma> evs = foldl step \<sigma> evs"

subsection \<open>Auxiliary notions for the properties\<close>

text \<open>
  A burst of calls of the debounced function: each comes before the timeout that is
  pending when it is made, due at \<open>due\<close>, has run.
\<close>

fun burst :: "nat \<Rightarrow> nat \<Rightarrow> (nat \<times> 'a) list \<Rightarrow> bool" where
  "burst delay due [] = True"
| "burst delay due ((t, args) # calls) = (t < due \<and> burst delay (t + delay) calls)"

text \<open>The three filter transitions, to speak about sequences of them.\<close>

datatype filter_call = SetSearch "code_unit list" | SetCategory string | SetGenre string

fun apply_filter :: "string option \<Rightarrow> app_state \<Rightarrow> filter_call \<Rightarrow> app_state" where
  "apply_filter tok s (SetSearch q) = fst (handleSearch tok q s)"
| "apply_filter tok s (SetCategory c) = fst (handleCategoryChange tok c s)"
| "apply_filter tok s (SetGenre g) = fst (handleGenreChange tok g s)"

text \<open>What a handler does with the \<open>isLoading\<close> flag, relative to whether it fetched.\<close>

definition guarded :: "app_state \<Rightarrow> app_state \<times> effect list \<times> (js_error + request) option \<Rightarrow> bool" where
  "guarded s r =
     (case r of (s', effs, call) \<Rightarrow>
        (call = None \<longrightarrow> isLoading s' = isLoading s) \<and>
        (call \<noteq> None \<longrightarrow> \<not> isLoading s \<and> isLoading s'))"

definition one_in_flight :: "sys \<Rightarrow> bool" where
  "one_in_flight \<sigma> =
     (length (movies_requests \<sigma>) \<le> 1 \<and> (movies_requests \<sigma> \<noteq> [] \<longrightarrow> isLoading (app \<sigma>)))"

text \<open>The requests that are out: the one of \<open>loadGenres\<close> and those of \<open>loadMovies\<close>.\<close>

definition in_flight :: "sys \<Rightarrow> nat" where
  "in_flight \<sigma> =
     (case genres_request \<sigma> of None \<Rightarrow> 0 | Some req \<Rightarrow> 1) + length (movies_requests \<sigma>)"

definition page_in_range :: "app_state \<Rightarrow> bool" where
  "page_in_range s = (1 \<le> currentPage s \<and> currentPage s \<le> totalPages s)"

text \<open>
  A successful completion of a pending \<open>loadMovies\<close> request covers the cursor when the
  page count it stores is not below the current page.
\<close>

fun covers_cursor :: "sys \<Rightarrow> event \<Rightarrow> bool" where
  "covers_cursor \<sigma> (MoviesSettle r) =
     (case fetchFromTMDB_resume r of
        Inr data \<Rightarrow>
          movies_requests \<sigma> = [] \<or> currentPage (app \<sigma>) \<le> clamp_total_pages (total_pages data)
      | Inl err \<Rightarrow> True)"
| "covers_cursor \<sigma> e = True"

fun all_cover_cursor :: "sys \<Rightarrow> event list \<Rightarrow> bool" where
  "all_cover_cursor \<sigma> [] = True"
| "all_cover_cursor \<sigma> (e # evs) = (covers_cursor \<sigma> e \<and> all_cover_cursor (step \<sigma> e) evs)"

text \<open>A 200 response with an empty result list and the given page count.\<close>

definition ok_page :: "int \<Rightarrow> page_data response" where
  "ok_page n = HttpResponse 200 ''OK'' (Inr \<lparr>results = Some [], total_pages = Some n\<rparr>)"

text \<open>
  A session: the genre list and the first trending page arrive (500 pages); the user
  clicks Next; while page 2 is loading a search for a rare title fires and is dropped by
  the guard; page 2 of trending arrives; the user clicks Next, which now requests page 2
  of the search; the remote answers that the search has one page.
\<close>

definition stale_total_trace :: "event list" where
  "stale_total_trace =
     [GenresSettle (HttpResponse 200 ''OK'' (Inr [(18, ''Drama'')])),
      MoviesSettle (ok_page 500),
      ClickNext,
      SearchFires (utf16 ''zzyzx''),
      MoviesSettle (ok_page 500),
      ClickNext,
      MoviesSettle (ok_page 1)]"

text \<open>Browsing: two clicks on Next, each answered before the next action.\<close>

definition browse_trace :: "event list" where
  "browse_trace =
     [GenresSettle (HttpResponse 200 ''OK'' (Inr [(18, ''Drama'')])),
      MoviesSettle (ok_page 500),
      ClickNext,
      MoviesSettle (ok_page 500),
      ClickNext]"

section \<open>Properties\<close>

subsection \<open>Basic facts\<close>

lemma apply_effect_frame:
  "app (apply_effect \<sigma> e) = app \<sigma> \<and> movies_requests (apply_effect \<sigma> e) = movies_requests \<sigma> \<and>
   genres_request (apply_effect \<sigma> e) = genres_request \<sigma> \<and> listening (apply_effect \<sigma> e) = listening \<sigma> \<and>
   tmdb_token (apply_effect \<sigma> e) = tmdb_token \<sigma>"
  by (cases e) simp_all

lemma apply_effects_frame:
  "app (apply_effects \<sigma> effs) = app \<sigma> \<and> movies_requests (apply_effects \<sigma> effs) = movies_requests \<sigma> \<and>
   genres_request (apply_effects \<sigma> effs) = genres_request \<sigma> \<and> listening (apply_effects \<sigma> effs) = listening \<sigma> \<and>
   tmdb_token (apply_effects \<sigma> effs) = tmdb_token \<sigma>"
  unfolding apply_effects_def
  by (induction effs arbitrary: \<sigma>) (simp_all add: apply_effect_frame)

lemma settle_app:
  "app (settle \<sigma> (s', effs, call)) =
     (case call of Some (Inl err) \<Rightarrow> fst (loadMovies_resume s' (Inl err)) | _ \<Rightarrow> s')"
  by (simp add: settle_def apply_effects_frame split: option.split sum.split prod.split)

lemma settle_requests:
  "movies_requests (settle \<sigma> (s', effs, call)) =
     (case call of Some (Inr req) \<Rightarrow> movies_requests \<sigma> @ [req] | _ \<Rightarrow> movies_requests \<sigma>)"
  by (simp add: settle_def apply_effects_frame split: option.split sum.split prod.split)

lemma boot_frame:
  "app (boot tok p n) = initial_state \<and> movies_requests (boot tok p n) = [] \<and>
   tmdb_token (boot tok p n) = tok"
  by (simp add: boot_def apply_effects_frame split: prod.split)

lemma run_fixed: "(\<And>e. step \<sigma> e = \<sigma>) \<Longrightarrow> run \<sigma> evs = \<sigma>"
  unfolding run_def by (induction evs) simp_all

subsection \<open>The in-flight guard\<close>

lemma guarded_handlers:
  "guarded s (loadMovies_begin tok s)"
  "guarded s (handleSearch tok q s)"
  "guarded s (handleCategoryChange tok c s)"
  "guarded s (handleGenreChange tok g s)"
  "guarded s (goToPage tok d s)"
  by (simp_all add: guarded_def handleSearch_def handleCategoryChange_def handleGenreChange_def
      goToPage_def loadMovies_begin_def Let_def)

lemma settle_one_in_flight:
  assumes "one_in_flight \<sigma>" and "guarded (app \<sigma>) r"
  shows "one_in_flight (settle \<sigma> r)"
proof -
  obtain s' effs call where r: "r = (s', effs, call)" by (cases r)
  show ?thesis
  proof (cases call)
    case None
    with assms r show ?thesis
      by (simp add: one_in_flight_def guarded_def settle_app settle_requests)
  next
    case (Some c)
    with assms r have idle: "\<not> isLoading (app \<sigma>)" and l: "isLoading s'"
      by (simp_all add: guarded_def)
    from idle assms(1) have e: "movies_requests \<sigma> = []" by (auto simp: one_in_flight_def)
    show ?thesis
      using Some r e l
      by (cases c) (simp_all add: one_in_flight_def settle_app settle_requests)
  qed
qed

lemma step_one_in_flight: "one_in_flight \<sigma> \<Longrightarrow> one_in_flight (step \<sigma> e)"
proof (cases e)
  case (GenresSettle r)
  assume a: "one_in_flight \<sigma>"
  show ?thesis
  proof (cases "genres_request \<sigma>")
    case None with a GenresSettle show ?thesis by simp
  next
    case (Some req)
    obtain s1 effs1 where l: "loadGenres_resume (app \<sigma>) (fetchFromTMDB_resume r) = (s1, effs1)"
      by (cases "loadGenres_resume (app \<sigma>) (fetchFromTMDB_resume r)")
    then have s1: "isLoading s1 = isLoading (app \<sigma>)"
      by (cases "fetchFromTMDB_resume r") auto
    let ?\<tau> = "apply_effects (\<sigma>\<lparr>app := s1, genres_request := None\<rparr>) effs1"
    have "one_in_flight ?\<tau>" using a s1 by (simp add: one_in_flight_def apply_effects_frame)
    moreover have "guarded (app ?\<tau>) (loadMovies_begin (tmdb_token \<sigma>) s1)"
      by (simp add: apply_effects_frame guarded_handlers)
    ultimately have "one_in_flight (settle ?\<tau> (loadMovies_begin (tmdb_token \<sigma>) s1))"
      by (rule settle_one_in_flight)
    with GenresSettle Some l show ?thesis by simp
  qed
next
  case (MoviesSettle r)
  assume a: "one_in_flight \<sigma>"
  show ?thesis
  proof (cases "movies_requests \<sigma>")
    case Nil with a MoviesSettle show ?thesis by simp
  next
    case (Cons req rest)
    with a have "rest = []" by (simp add: one_in_flight_def)
    with MoviesSettle Cons show ?thesis
      by (simp add: one_in_flight_def apply_effects_frame split: prod.split)
  qed
qed (simp_all add: settle_one_in_flight guarded_handlers)

lemma run_one_in_flight: "one_in_flight \<sigma> \<Longrightarrow> one_in_flight (run \<sigma> evs)"
  unfolding run_def by (induction evs arbitrary: \<sigma>) (simp_all add: step_one_in_flight)

lemma boot_one_in_flight: "one_in_flight (boot tok p n)"
  by (simp add: one_in_flight_def boot_frame)

text \<open>
  C1, as stated: at most one fetch is in flight at any time. \<open>init\<close> installs the
  listeners before it awaits \<open>loadGenres\<close>, and \<open>loadGenres\<close> does not set
  \<open>isLoading\<close>: a category chosen while the genre list is loading starts a movie fetch
  beside the genre fetch.
\<close>

theorem two_fetches_in_flight_at_startup:
  "in_flight (run (boot (Some ''k'') False False) [CategorySelected ''popular'']) = 2 \<and>
   \<not> in_flight (run (boot (Some ''k'') False False) [CategorySelected ''popular'']) \<le> 1 \<and>
   genres_request (run (boot (Some ''k'') False False) [CategorySelected ''popular''])
     = Some \<lparr>endpoint = ''/genre/movie/list'', query = [], bearer = ''k''\<rparr> \<and>
   movies_requests (run (boot (Some ''k'') False False) [CategorySelected ''popular''])
     = [\<lparr>endpoint = ''/movie/popular'', query = [(''page'', PNum 1)], bearer = ''k''\<rparr>]"
  by (simp add: in_flight_def run_def boot_def init_begin_def loadGenres_begin_def
      fetchFromTMDB_begin_def apply_effects_def settle_def handleCategoryChange_def
      loadMovies_begin_def Let_def initial_state_def loadMovies_endpoint_def
      loadMovies_params_def updatePaginationUI_def)

text \<open>
  C1, amended: at most one fetch of \<open>loadMovies\<close> is in flight at any time. While
  \<open>isLoading\<close> is true, \<open>loadMovies\<close> returns at its guard: the search intent, a
  category change, a genre change and pagination fetch nothing and queue nothing. In
  every configuration the page reaches from start-up, under any events, at most one
  request of \<open>loadMovies\<close> is pending, and \<open>isLoading\<close> is true while it is. The
  genre-list fetch of start-up is outside the guard: beside it one movie fetch can be
  out, so at most two requests are in flight, and at most one once it has settled.
\<close>

theorem loading_drops_movie_fetch:
  "(isLoading s \<longrightarrow>
      loadMovies_begin tok s = (s, [], None) \<and>
      snd (snd (handleSearch tok q s)) = None \<and>
      snd (snd (handleCategoryChange tok c s)) = None \<and>
      snd (snd (handleGenreChange tok g s)) = None \<and>
      snd (snd (goToPage tok d s)) = None) \<and>
   length (movies_requests (run (boot tok p n) evs)) \<le> 1 \<and>
   (movies_requests (run (boot tok p n) evs) \<noteq> [] \<longrightarrow> isLoading (app (run (boot tok p n) evs))) \<and>
   in_flight (run (boot tok p n) evs) \<le> 2 \<and>
   (genres_request (run (boot tok p n) evs) = None \<longrightarrow> in_flight (run (boot tok p n) evs) \<le> 1)"
proof -
  have guard: "loadMovies_begin tok s = (s, [], None) \<and>
      snd (snd (handleSearch tok q s)) = None \<and>
      snd (snd (handleCategoryChange tok c s)) = None \<and>
      snd (snd (handleGenreChange tok g s)) = None \<and>
      snd (snd (goToPage tok d s)) = None" if "isLoading s"
    using that
    by (simp add: handleSearch_def handleCategoryChange_def handleGenreChange_def
        goToPage_def loadMovies_begin_def)
  have "one_in_flight (run (boot tok p n) evs)"
    by (rule run_one_in_flight [OF boot_one_in_flight])
  then have one: "length (movies_requests (run (boot tok p n) evs)) \<le> 1"
    and l: "movies_requests (run (boot tok p n) evs) \<noteq> [] \<longrightarrow> isLoading (app (run (boot tok p n) evs))"
    by (simp_all add: one_in_flight_def)
  from one have two: "in_flight (run (boot tok p n) evs) \<le> 2"
    by (simp add: in_flight_def split: option.split)
  from one have settled: "genres_request (run (boot tok p n) evs) = None \<longrightarrow>
      in_flight (run (boot tok p n) evs) \<le> 1"
    by (simp add: in_flight_def)
  from guard one l two settled show ?thesis by blast
qed

theorem loading_drops_movie_fetch_witness:
  "isLoading (initial_state\<lparr>totalPages := 5, isLoading := True\<rparr>) \<and>
   snd (snd (goToPage (Some ''k'') ''next'' (initial_state\<lparr>totalPages := 5, isLoading := True\<rparr>))) = None \<and>
   snd (snd (handleSearch (Some ''k'') (utf16 ''dune'') (initial_state\<lparr>totalPages := 5, isLoading := True\<rparr>))) = None \<and>
   genres_request (run (boot (Some ''k'') False False) browse_trace) = None \<and>
   length (movies_requests (run (boot (Some ''k'') False False) browse_trace)) = 1 \<and>
   in_flight (run (boot (Some ''k'') False False) browse_trace) = 1 \<and>
   isLoading (app (run (boot (Some ''k'') False False) browse_trace))"
proof -
  have r: "length (movies_requests (run (boot (Some ''k'') False False) browse_trace)) = 1"
    by (simp add: run_def browse_trace_def ok_page_def boot_def init_begin_def loadGenres_begin_def
      fetchFromTMDB_begin_def apply_effects_def settle_def goToPage_def
      loadMovies_begin_def Let_def initial_state_def response_ok_def clamp_total_pages_def
      loadMovies_endpoint_def loadMovies_params_def updatePaginationUI_def)
  have g: "genres_request (run (boot (Some ''k'') False False) browse_trace) = None"
    by (simp add: run_def browse_trace_def ok_page_def boot_def init_begin_def loadGenres_begin_def
      fetchFromTMDB_begin_def apply_effects_def settle_def goToPage_def
      loadMovies_begin_def Let_def initial_state_def response_ok_def clamp_total_pages_def
      loadMovies_endpoint_def loadMovies_params_def updatePaginationUI_def)
  have l: "isLoading (initial_state\<lparr>totalPages := 5, isLoading := True\<rparr>)" by simp
  have i: "in_flight (run (boot (Some ''k'') False False) browse_trace) = 1"
    using r g by (simp add: in_flight_def)
  show ?thesis
    using loading_drops_movie_fetch [of "initial_state\<lparr>totalPages := 5, isLoading := True\<rparr>" "Some ''k''"
        "utf16 ''dune''" "''popular''" "''18''" "''next''" False False browse_trace] r g i l
    by auto
qed

subsection \<open>The page cursor and the page count\<close>

lemma settle_page_in_range:
  "page_in_range (fst r) \<Longrightarrow> page_in_range (app (settle \<sigma> r))"
  by (cases r) (auto simp: settle_app page_in_range_def Let_def split: option.split sum.split)

lemma handlers_page_in_range:
  assumes "page_in_range s"
  shows "page_in_range (fst (loadMovies_begin tok s))"
    "page_in_range (fst (handleSearch tok q s))"
    "page_in_range (fst (handleCategoryChange tok c s))"
    "page_in_range (fst (handleGenreChange tok g s))"
    "page_in_range (fst (goToPage tok d s))"
  using assms
  by (simp_all add: page_in_range_def handleSearch_def handleCategoryChange_def handleGenreChange_def
      goToPage_def loadMovies_begin_def Let_def)

lemma step_page_in_range:
  assumes "page_in_range (app \<sigma>)" and "covers_cursor \<sigma> e"
  shows "page_in_range (app (step \<sigma> e))"
proof (cases e)
  case (GenresSettle r)
  show ?thesis
  proof (cases "genres_request \<sigma>")
    case None with assms GenresSettle show ?thesis by simp
  next
    case (Some req)
    obtain s1 effs1 where l: "loadGenres_resume (app \<sigma>) (fetchFromTMDB_resume r) = (s1, effs1)"
      by (cases "loadGenres_resume (app \<sigma>) (fetchFromTMDB_resume r)")
    then have "page_in_range s1" using assms(1)
      by (cases "fetchFromTMDB_resume r") (auto simp: page_in_range_def)
    then have "page_in_range (fst (loadMovies_begin (tmdb_token \<sigma>) s1))"
      by (rule handlers_page_in_range)
    then show ?thesis using GenresSettle Some l by (simp add: settle_page_in_range)
  qed
next
  case (MoviesSettle r)
  show ?thesis
  proof (cases "movies_requests \<sigma>")
    case Nil with assms MoviesSettle show ?thesis by simp
  next
    case (Cons req rest)
    show ?thesis
    proof (cases "fetchFromTMDB_resume r")
      case (Inl err)
      with assms MoviesSettle Cons show ?thesis
        by (simp add: apply_effects_frame page_in_range_def Let_def split: prod.split)
    next
      case (Inr data)
      with assms MoviesSettle Cons show ?thesis
        by (simp add: apply_effects_frame page_in_range_def Let_def split: prod.split)
    qed
  qed
qed (simp_all add: assms(1) settle_page_in_range handlers_page_in_range)

lemma run_page_in_range:
  "page_in_range (app \<sigma>) \<Longrightarrow> all_cover_cursor \<sigma> evs \<Longrightarrow> page_in_range (app (run \<sigma> evs))"
  unfolding run_def
  by (induction evs arbitrary: \<sigma>) (simp_all add: step_page_in_range)

text \<open>
  C2, as stated: in every reachable state, once \<open>totalPages\<close> has been set from a fetch
  result, \<open>currentPage \<le> totalPages\<close>. It fails in the session \<open>stale_total_trace\<close>:
  the search that fired during a load reset the cursor and changed the query without
  fetching, so the next click on Next asks for page 2 of a search that has one page, and
  the completion stores \<open>totalPages = 1\<close> under the cursor 2.
\<close>

theorem page_above_totalPages_after_completion:
  "currentPage (app (run (boot (Some ''k'') False False) stale_total_trace)) = 2 \<and>
   totalPages (app (run (boot (Some ''k'') False False) stale_total_trace)) = 1 \<and>
   \<not> currentPage (app (run (boot (Some ''k'') False False) stale_total_trace))
       \<le> totalPages (app (run (boot (Some ''k'') False False) stale_total_trace))"
  by (simp add: run_def stale_total_trace_def ok_page_def boot_def init_begin_def loadGenres_begin_def
      fetchFromTMDB_begin_def apply_effects_def settle_def handleSearch_def goToPage_def
      loadMovies_begin_def Let_def initial_state_def response_ok_def clamp_total_pages_def
      loadMovies_endpoint_def loadMovies_params_def updatePaginationUI_def trim_def is_whitespace_def utf16_def)

text \<open>
  C2, amended: \<open>1 \<le> currentPage \<le> totalPages\<close> holds in every state the page reaches
  from start-up, provided each successful completion of a pending request stores a page
  count (\<open>total_pages\<close>, defaulted to 1 and capped at 500) that is not below the cursor at
  that moment. User actions and failed completions keep it; nothing in \<open>loadMovies\<close>
  adjusts the cursor to a smaller page count.
\<close>

theorem page_in_range_while_completions_cover_cursor:
  assumes "all_cover_cursor (boot tok p n) evs"
  shows "1 \<le> currentPage (app (run (boot tok p n) evs)) \<and>
         currentPage (app (run (boot tok p n) evs)) \<le> totalPages (app (run (boot tok p n) evs))"
proof -
  have "page_in_range (app (boot tok p n))"
    by (simp add: boot_frame page_in_range_def initial_state_def)
  from run_page_in_range [OF this assms] show ?thesis by (simp add: page_in_range_def)
qed

theorem page_in_range_while_completions_cover_cursor_witness:
  "all_cover_cursor (boot (Some ''k'') False False) browse_trace \<and>
   currentPage (app (run (boot (Some ''k'') False False) browse_trace)) = 3 \<and>
   3 \<le> totalPages (app (run (boot (Some ''k'') False False) browse_trace))"
proof -
  have h: "all_cover_cursor (boot (Some ''k'') False False) browse_trace"
    by (simp add: browse_trace_def ok_page_def boot_def init_begin_def loadGenres_begin_def
      fetchFromTMDB_begin_def apply_effects_def settle_def goToPage_def
      loadMovies_begin_def Let_def initial_state_def response_ok_def clamp_total_pages_def
      loadMovies_endpoint_def loadMovies_params_def updatePaginationUI_def)
  have c: "currentPage (app (run (boot (Some ''k'') False False) browse_trace)) = 3"
    by (simp add: run_def browse_trace_def ok_page_def boot_def init_begin_def loadGenres_begin_def
      fetchFromTMDB_begin_def apply_effects_def settle_def goToPage_def
      loadMovies_begin_def Let_def initial_state_def response_ok_def clamp_total_pages_def
      loadMovies_endpoint_def loadMovies_params_def updatePaginationUI_def)
  show ?thesis
    using page_in_range_while_completions_cover_cursor [OF h] h c by simp
qed

text \<open>
  C3. The search intent, a category change and a genre change each leave
  \<open>currentPage = 1\<close>, from every state, hence after each call of any sequence of them.
\<close>

theorem filter_change_resets_page:
  "currentPage (fst (handleSearch tok q s)) = 1 \<and>
   currentPage (fst (handleCategoryChange tok c s)) = 1 \<and>
   currentPage (fst (handleGenreChange tok g s)) = 1 \<and>
   currentPage (apply_filter tok (foldl (apply_filter tok) s calls) call) = 1"
proof -
  have h: "\<And>s. currentPage (fst (handleSearch tok q s)) = 1"
    "\<And>s. currentPage (fst (handleCategoryChange tok c s)) = 1"
    "\<And>s. currentPage (fst (handleGenreChange tok g s)) = 1" for q c g
    by (simp_all add: handleSearch_def handleCategoryChange_def handleGenreChange_def
        loadMovies_begin_def Let_def split: prod.split)
  have "currentPage (apply_filter tok s' call) = 1" for s'
    by (cases call) (simp_all add: h)
  with h show ?thesis by simp
qed

theorem filter_change_resets_page_witness:
  "currentPage (fst (handleGenreChange (Some ''k'') ''18'' (initial_state\<lparr>currentPage := 7, totalPages := 9\<rparr>))) = 1 \<and>
   currentPage (apply_filter (Some ''k'')
      (foldl (apply_filter (Some ''k'')) (initial_state\<lparr>currentPage := 7, totalPages := 9\<rparr>)
         [SetSearch (utf16 ''dune''), SetGenre ''18''])
      (SetCategory ''popular'')) = 1"
  using filter_change_resets_page [of "Some ''k''" "utf16 ''dune''"
      "initial_state\<lparr>currentPage := 7, totalPages := 9\<rparr>" "''popular''" "''18''"
      "[SetSearch (utf16 ''dune''), SetGenre ''18'']" "SetCategory ''popular''"]
  by simp

text \<open>
  C4. \<open>goToPage('next')\<close> adds 1 to \<open>currentPage\<close> when \<open>currentPage < totalPages\<close> and
  does nothing otherwise; \<open>goToPage('prev')\<close> subtracts 1 when \<open>currentPage > 1\<close> and
  does nothing otherwise; \<open>totalPages\<close> is untouched, so a cursor inside
  \<open>[1, totalPages]\<close> stays inside.
\<close>

theorem goToPage_bounded:
  "(currentPage s < totalPages s \<longrightarrow>
      currentPage (fst (goToPage tok ''next'' s)) = currentPage s + 1) \<and>
   (\<not> currentPage s < totalPages s \<longrightarrow> goToPage tok ''next'' s = (s, [], None)) \<and>
   (currentPage s > 1 \<longrightarrow>
      currentPage (fst (goToPage tok ''prev'' s)) = currentPage s - 1) \<and>
   (\<not> currentPage s > 1 \<longrightarrow> goToPage tok ''prev'' s = (s, [], None)) \<and>
   totalPages (fst (goToPage tok direction s)) = totalPages s \<and>
   (1 \<le> currentPage s \<and> currentPage s \<le> totalPages s \<longrightarrow>
      1 \<le> currentPage (fst (goToPage tok direction s)) \<and>
      currentPage (fst (goToPage tok direction s)) \<le> totalPages s)"
  by (simp add: goToPage_def loadMovies_begin_def Let_def split: prod.split)

theorem goToPage_bounded_witness:
  "currentPage (fst (goToPage (Some ''k'') ''next'' (initial_state\<lparr>currentPage := 3, totalPages := 5\<rparr>))) = 4 \<and>
   currentPage (fst (goToPage (Some ''k'') ''prev'' (initial_state\<lparr>currentPage := 3, totalPages := 5\<rparr>))) = 2 \<and>
   goToPage (Some ''k'') ''next'' (initial_state\<lparr>currentPage := 5, totalPages := 5\<rparr>)
     = (initial_state\<lparr>currentPage := 5, totalPages := 5\<rparr>, [], None) \<and>
   goToPage (Some ''k'') ''prev'' initial_state = (initial_state, [], None)"
  using goToPage_bounded [of "initial_state\<lparr>currentPage := 3, totalPages := 5\<rparr>" "Some ''k''" "''next''"]
    goToPage_bounded [of "initial_state\<lparr>currentPage := 5, totalPages := 5\<rparr>" "Some ''k''" "''next''"]
    goToPage_bounded [of initial_state "Some ''k''" "''prev''"]
  by (simp add: initial_state_def)

subsection \<open>The derived request\<close>

text \<open>
  C5. The request that \<open>loadMovies\<close> issues (the page is idle and the token is set): with
  a non-empty \<open>searchQuery\<close> it goes to the search endpoint with \<open>query\<close> set to it;
  otherwise to the endpoint of the category, and to the trending endpoint for a category
  that is none of the three; a non-empty \<open>selectedGenre\<close> is attached as \<open>with_genres\<close>
  on either path, and an empty one is not.
\<close>

theorem request_derivation:
  assumes "\<not> isLoading s" and "t \<noteq> []"
  shows "\<exists>s' effs req. loadMovies_begin (Some t) s = (s', effs, Some (Inr req)) \<and>
     bearer req = t \<and>
     map_of (query req) ''page'' = Some (PNum (currentPage s)) \<and>
     (searchQuery s \<noteq> [] \<longrightarrow>
        endpoint req = ''/search/movie'' \<and>
        map_of (query req) ''query'' = Some (PText (searchQuery s))) \<and>
     (searchQuery s = [] \<longrightarrow>
        map_of (query req) ''query'' = None \<and>
        (currentCategory s = ''trending'' \<longrightarrow> endpoint req = ''/trending/movie/week'') \<and>
        (currentCategory s = ''popular'' \<longrightarrow> endpoint req = ''/movie/popular'') \<and>
        (currentCategory s = ''top_rated'' \<longrightarrow> endpoint req = ''/movie/top_rated'') \<and>
        (currentCategory s \<notin> {''trending'', ''popular'', ''top_rated''} \<longrightarrow>
           endpoint req = ''/trending/movie/week'')) \<and>
     (selectedGenre s \<noteq> [] \<longrightarrow>
        map_of (query req) ''with_genres'' = Some (PStr (selectedGenre s))) \<and>
     (selectedGenre s = [] \<longrightarrow> map_of (query req) ''with_genres'' = None)"
  using assms
  by (simp add: loadMovies_begin_def fetchFromTMDB_begin_def loadMovies_endpoint_def
      loadMovies_params_def Let_def)

theorem request_derivation_witness:
  "\<not> isLoading (initial_state\<lparr>searchQuery := utf16 ''dune'', selectedGenre := ''18''\<rparr>) \<and> ''k'' \<noteq> [] \<and>
   (\<exists>s' effs req.
     loadMovies_begin (Some ''k'') (initial_state\<lparr>searchQuery := utf16 ''dune'', selectedGenre := ''18''\<rparr>)
       = (s', effs, Some (Inr req)) \<and>
     endpoint req = ''/search/movie'' \<and>
     map_of (query req) ''query'' = Some (PText (utf16 ''dune'')) \<and>
     map_of (query req) ''with_genres'' = Some (PStr ''18''))"
proof -
  have a: "\<not> isLoading (initial_state\<lparr>searchQuery := utf16 ''dune'', selectedGenre := ''18''\<rparr>)"
    by (simp add: initial_state_def)
  have b: "''k'' \<noteq> []" by simp
  show ?thesis
    using request_derivation [OF a b] a by (simp add: utf16_def) blast
qed

subsection \<open>The missing token\<close>

lemma boot_no_token:
  "tok = None \<or> tok = Some [] \<Longrightarrow>
   boot tok p n =
     \<lparr>app = initial_state, tmdb_token = tok, listening = False, genres_request = None,
      movies_requests = [], prevBtn_disabled = p, nextBtn_disabled = n,
      effects = [ShowStatus ''TMDB API token not configured. Please set window.TMDB_TOKEN in your browser console or configuration.'' ''error'']\<rparr>"
  by (auto simp: boot_def init_begin_def apply_effects_def)

lemma step_no_token:
  assumes "tok = None \<or> tok = Some []"
  shows "step (boot tok p n) e = boot tok p n"
  by (cases e) (simp_all add: boot_no_token [OF assms])

text \<open>
  C6. Without a token \<open>fetchFromTMDB\<close> rejects with the error "token not found" before
  \<open>fetch\<close> is called. At start-up \<open>init\<close> shows the configuration error and returns: it
  installs no listener and calls neither \<open>loadGenres\<close> nor \<open>loadMovies\<close>, so whatever
  happens afterwards no request goes out and the banner is the only effect.
\<close>

theorem no_token_no_network:
  assumes "tok = None \<or> tok = Some []"
  shows "fetchFromTMDB_begin tok ep ps = Inl (Error ''TMDB API token not found. Please set window.TMDB_TOKEN'') \<and>
    init_begin tok =
      ([ShowStatus ''TMDB API token not configured. Please set window.TMDB_TOKEN in your browser console or configuration.'' ''error''],
       False, None) \<and>
    genres_request (run (boot tok p n) evs) = None \<and>
    movies_requests (run (boot tok p n) evs) = [] \<and>
    effects (run (boot tok p n) evs) =
      [ShowStatus ''TMDB API token not configured. Please set window.TMDB_TOKEN in your browser console or configuration.'' ''error'']"
proof -
  have "run (boot tok p n) evs = boot tok p n"
    by (rule run_fixed) (rule step_no_token [OF assms])
  then show ?thesis using assms
    by (auto simp: boot_no_token fetchFromTMDB_begin_def init_begin_def)
qed

theorem no_token_no_network_witness:
  "fetchFromTMDB_begin None ''/search/movie'' [(''page'', PNum 1)] =
     Inl (Error ''TMDB API token not found. Please set window.TMDB_TOKEN'') \<and>
   movies_requests (run (boot None False False) [ClickNext, SearchFires (utf16 ''dune''), CategorySelected ''popular'']) = [] \<and>
   genres_request (run (boot None False False) [ClickNext, SearchFires (utf16 ''dune''), CategorySelected ''popular'']) = None"
  using no_token_no_network [of None "''/search/movie''" "[(''page'', PNum 1)]" False False
      "[ClickNext, SearchFires (utf16 ''dune''), CategorySelected ''popular'']"]
  by simp

subsection \<open>The rating badge\<close>

text \<open>
  C7, as stated, gives an absent rating the text "N/A" with neutral styling. The card of
  a movie without \<open>vote_average\<close> shows "N/A" in \<open>text-red-400\<close>, the class of a rating
  below 6: \<open>getRatingColor\<close> has three classes and no neutral one.
\<close>

theorem absent_rating_styled_as_poor:
  "ratingBadge (\<lambda>x. ''0.0'')
     \<lparr>title = ''Untitled'', poster_path = None, release_date = None, overview = None,
      vote_average = Undefined\<rparr>
     = (''text-red-400'', ''N/A'') \<and>
   getRatingColor Undefined = getRatingColor (Num 5.999) \<and>
   getRatingColor Null = getRatingColor (Num 5.999)"
  by (simp add: ratingBadge_def getRatingColor_def formatRating_def)

text \<open>
  C7, amended: a rating of at least 7.5 gets \<open>text-green-400\<close> (good), a rating from 6
  up to but excluding 7.5 gets \<open>text-yellow-400\<close> (medium), a rating below 6 gets
  \<open>text-red-400\<close> (poor); an absent rating (\<open>undefined\<close> or \<open>null\<close>) gets the text
  "N/A", in the class of the poor band.
\<close>

theorem rating_bands:
  "(x \<ge> 7.5 \<longrightarrow> getRatingColor (Num x) = ''text-green-400'') \<and>
   (6 \<le> x \<and> x < 7.5 \<longrightarrow> getRatingColor (Num x) = ''text-yellow-400'') \<and>
   (x < 6 \<longrightarrow> getRatingColor (Num x) = ''text-red-400'') \<and>
   formatRating toFixed1 Undefined = ''N/A'' \<and> formatRating toFixed1 Null = ''N/A'' \<and>
   getRatingColor Undefined = ''text-red-400'' \<and> getRatingColor Null = ''text-red-400''"
  by (simp add: getRatingColor_def formatRating_def)

theorem rating_bands_witness:
  "getRatingColor (Num 7.5) = ''text-green-400'' \<and> getRatingColor (Num 6.0) = ''text-yellow-400'' \<and>
   getRatingColor (Num 5.999) = ''text-red-400''"
  using rating_bands [of "7.5"] rating_bands [of "6.0"] rating_bands [of "5.999"] by simp

subsection \<open>Debounced search\<close>

lemma strip_end: "xs = rev (dropWhile P (rev xs)) @ rev (takeWhile P (rev xs))"
  by (metis rev_append rev_rev_ident takeWhile_dropWhile_id)

lemma trim_body:
  "dropWhile is_whitespace s =
     trim s @ rev (takeWhile is_whitespace (rev (dropWhile is_whitespace s)))"
  unfolding trim_def by (rule strip_end)

lemma trim_decomp:
  "s = takeWhile is_whitespace s @ trim s @
       rev (takeWhile is_whitespace (rev (dropWhile is_whitespace s)))"
proof -
  have "s = takeWhile is_whitespace s @ dropWhile is_whitespace s" by simp
  then show ?thesis using trim_body [of s] by simp
qed

lemma trim_last: "trim s \<noteq> [] \<Longrightarrow> \<not> is_whitespace (last (trim s))"
  by (simp add: trim_def last_rev hd_dropWhile)

lemma trim_hd:
  assumes "trim s \<noteq> []"
  shows "\<not> is_whitespace (hd (trim s))"
proof -
  let ?d = "dropWhile is_whitespace s"
  have d: "?d = trim s @ rev (takeWhile is_whitespace (rev ?d))" by (rule trim_body)
  have "?d \<noteq> []" using d assms by (metis append_is_Nil_conv)
  then have "\<not> is_whitespace (hd ?d)" by (rule hd_dropWhile)
  moreover have "hd ?d = hd (trim s)" using d assms by (metis hd_append2)
  ultimately show ?thesis by simp
qed

text \<open>While calls keep coming before the pending timeout is due, exactly that one timeout is pending.\<close>

lemma burst_run:
  "burst delay due calls \<Longrightarrow> pending h = [(i, due, x)] \<Longrightarrow>
   run_debounced delay (Some i, h) calls =
     [(case calls of [] \<Rightarrow> (due, x) | _ \<Rightarrow> (fst (last calls) + delay, snd (last calls)))]"
proof (induction calls arbitrary: due h i x)
  case Nil
  then show ?case by simp
next
  case (Cons c calls)
  obtain t y where c: "c = (t, y)" by (cases c)
  from Cons.prems c have lt: "t < due" and b: "burst delay (t + delay) calls" by simp_all
  let ?h = "snd (debounce delay t y (Some i, expire t h))"
  have d: "debounce delay t y (Some i, expire t h) = (Some (next_id h), ?h)"
    by (simp add: debounce_def setTimeout_def clearTimeout_def expire_def)
  have p: "pending ?h = [(next_id h, t + delay, y)]"
    using Cons.prems(2) lt by (simp add: debounce_def setTimeout_def clearTimeout_def expire_def)
  have "run_debounced delay (Some i, h) (c # calls)
          = run_debounced delay (Some (next_id h), ?h) calls"
    using Cons.prems(2) lt c d by (simp add: expired_def)
  also have "\<dots> = [(case calls of [] \<Rightarrow> (t + delay, y)
                        | _ \<Rightarrow> (fst (last calls) + delay, snd (last calls)))]"
    by (rule Cons.IH [OF b p])
  finally show ?case using c by (cases calls) simp_all
qed

lemma burst_from_start:
  assumes b: "burst delay (t0 + delay) calls"
  shows "run_debounced delay (None, no_timers) ((t0, a0) # calls) =
     [(fst (last ((t0, a0) # calls)) + delay, snd (last ((t0, a0) # calls)))]"
proof -
  let ?h = "snd (debounce delay t0 a0 (None, expire t0 no_timers))"
  have d: "debounce delay t0 a0 (None, expire t0 no_timers) = (Some 1, ?h)"
    by (simp add: debounce_def setTimeout_def clearTimeout_def expire_def no_timers_def)
  have p: "pending ?h = [(1, t0 + delay, a0)]"
    by (simp add: debounce_def setTimeout_def clearTimeout_def expire_def no_timers_def)
  have "run_debounced delay (None, no_timers) ((t0, a0) # calls)
          = run_debounced delay (Some 1, ?h) calls"
    using d by (simp add: no_timers_def expired_def)
  also note burst_run [OF b p]
  finally show ?thesis by (cases calls) simp_all
qed

text \<open>
  C8. With a delay of 500 ms, keystrokes at 0, 100, 200 and 600 ms lead to one invocation
  of the wrapped function, at 1100 ms, with the text of the last keystroke; the function
  stores that text trimmed as \<open>searchQuery\<close>: what was cut off at either end is white
  space and what is left neither starts nor ends with white space. In general, calls that
  each come before the timeout set by the previous one is due lead to one invocation,
  \<open>delay\<close> after the last call and with its text: such a call removes the pending
  timeout from the table of the host and enters a new one, due \<open>delay\<close> later. A
  timeout runs at its due time, and before a call made at that same time.
\<close>

theorem debounce_fires_once:
  "run_debounced 500 (None, no_timers) [(0, a), (100, b), (200, c), (600, d)] = [(1100, d)] \<and>
   searchQuery (fst (handleSearch tok d s)) = trim d \<and>
   (burst delay (t0 + delay) calls \<longrightarrow>
      run_debounced delay (None, no_timers) ((t0, a0) # calls)
        = [(fst (last ((t0, a0) # calls)) + delay, snd (last ((t0, a0) # calls)))]) \<and>
   (pending h = [(i, due, x)] \<and> t < due \<longrightarrow>
      debounce delay t y (Some i, expire t h)
        = (Some (next_id h),
           h\<lparr>next_id := Suc (next_id h), pending := [(next_id h, t + delay, y)]\<rparr>)) \<and>
   (\<exists>pre post. d = pre @ trim d @ post \<and> list_all is_whitespace pre \<and> list_all is_whitespace post) \<and>
   (trim d \<noteq> [] \<longrightarrow> \<not> is_whitespace (hd (trim d)) \<and> \<not> is_whitespace (last (trim d)))"
proof (intro conjI)
  show "run_debounced 500 (None, no_timers) [(0, a), (100, b), (200, c), (600, d)] = [(1100, d)]"
    by (simp add: debounce_def setTimeout_def clearTimeout_def expire_def expired_def no_timers_def)
  show "searchQuery (fst (handleSearch tok d s)) = trim d"
    by (simp add: handleSearch_def loadMovies_begin_def Let_def)
  show "burst delay (t0 + delay) calls \<longrightarrow>
      run_debounced delay (None, no_timers) ((t0, a0) # calls)
        = [(fst (last ((t0, a0) # calls)) + delay, snd (last ((t0, a0) # calls)))]"
    by (rule impI) (rule burst_from_start)
  show "pending h = [(i, due, x)] \<and> t < due \<longrightarrow>
      debounce delay t y (Some i, expire t h)
        = (Some (next_id h),
           h\<lparr>next_id := Suc (next_id h), pending := [(next_id h, t + delay, y)]\<rparr>)"
    by (simp add: debounce_def setTimeout_def clearTimeout_def expire_def)
  show "\<exists>pre post. d = pre @ trim d @ post \<and> list_all is_whitespace pre \<and> list_all is_whitespace post"
  proof (intro exI conjI)
    show "d = takeWhile is_whitespace d @ trim d @
              rev (takeWhile is_whitespace (rev (dropWhile is_whitespace d)))"
      by (rule trim_decomp)
    show "list_all is_whitespace (takeWhile is_whitespace d)"
      by (simp add: list_all_iff) (meson set_takeWhileD)
    show "list_all is_whitespace (rev (takeWhile is_whitespace (rev (dropWhile is_whitespace d))))"
      by (simp add: list_all_iff) (meson set_takeWhileD)
  qed
  show "trim d \<noteq> [] \<longrightarrow> \<not> is_whitespace (hd (trim d)) \<and> \<not> is_whitespace (last (trim d))"
    using trim_hd trim_last by blast
qed

theorem debounce_fires_once_witness:
  "run_debounced 500 (None, no_timers)
     [(0, utf16 ''d''), (100, utf16 ''du''), (200, utf16 ''dun''), (600, utf16 '' dune '')]
     = [(1100, utf16 '' dune '')] \<and>
   searchQuery (fst (handleSearch (Some ''k'') (utf16 '' dune '') initial_state)) = utf16 ''dune'' \<and>
   searchQuery (fst (handleSearch (Some ''k'') [0x00A0, 0x2028, 0xFEFF] initial_state)) = [] \<and>
   burst 500 500 [(100, utf16 ''du''), (200, utf16 ''dun'')] \<and>
   run_debounced 500 (None, no_timers) [(0, utf16 ''d''), (100, utf16 ''du''), (200, utf16 ''dun'')]
     = [(700, utf16 ''dun'')] \<and>
   run_debounced 500 (None, no_timers) [(0, utf16 ''d''), (500, utf16 ''du'')]
     = [(500, utf16 ''d''), (1000, utf16 ''du'')] \<and>
   debounce 500 100 (utf16 ''du'') (Some 1, \<lparr>next_id = 2, pending = [(1, 500, utf16 ''d'')]\<rparr>)
     = (Some 2, \<lparr>next_id = 3, pending = [(2, 600, utf16 ''du'')]\<rparr>) \<and>
   \<not> is_whitespace (hd (utf16 ''dune'')) \<and> \<not> is_whitespace (last (utf16 ''dune''))"
proof -
  have t: "trim (utf16 '' dune '') = utf16 ''dune''" "trim [0x00A0, 0x2028, 0xFEFF] = []"
    by (simp_all add: trim_def is_whitespace_def utf16_def)
  have b: "burst 500 500 [(100, utf16 ''du''), (200, utf16 ''dun'')]" by simp
  have late: "run_debounced 500 (None, no_timers) [(0, utf16 ''d''), (500, utf16 ''du'')]
     = [(500, utf16 ''d''), (1000, utf16 ''du'')]"
    by (simp add: debounce_def setTimeout_def clearTimeout_def expire_def expired_def no_timers_def)
  have e: "expire 100 \<lparr>next_id = 2, pending = [(1, 500, utf16 ''d'')]\<rparr>
             = \<lparr>next_id = 2, pending = [(1, 500, utf16 ''d'')]\<rparr>"
    by (simp add: expire_def)
  have ne: "utf16 ''dune'' \<noteq> []" by (simp add: utf16_def)
  note burst_of_three =
    debounce_fires_once [of "utf16 ''d''" "utf16 ''du''" "utf16 ''dun''" "utf16 '' dune ''"
        "Some ''k''" initial_state 500 0 "[(100, utf16 ''du''), (200, utf16 ''dun'')]" "utf16 ''d''"
        "\<lparr>next_id = 2, pending = [(1, 500, utf16 ''d'')]\<rparr>" 1 500 "utf16 ''d''" 100 "utf16 ''du''"]
  note blank =
    debounce_fires_once [THEN conjunct2, THEN conjunct1,
        of "Some ''k''" "[0x00A0, 0x2028, 0xFEFF]" initial_state]
  show ?thesis
    using burst_of_three blank t b late e ne by simp
qed

subsection \<open>Two consequences of how the code tests and guards\<close>

text \<open>
  C9. A rating of exactly 0 is falsy, so \<open>formatRating\<close> returns "N/A" and never calls
  \<open>toFixed\<close>; the badge of a movie rated 0 is the badge of a movie without a rating.
\<close>

theorem zero_rating_shown_as_absent:
  "formatRating toFixed1 (Num 0) = ''N/A'' \<and>
   ratingBadge toFixed1 (m\<lparr>vote_average := Num 0\<rparr>)
     = ratingBadge toFixed1 (m\<lparr>vote_average := Undefined\<rparr>)"
  by (simp add: formatRating_def ratingBadge_def getRatingColor_def)

theorem zero_rating_shown_as_absent_witness:
  "formatRating (\<lambda>x. ''0.0'') (Num 0) = ''N/A'' \<and>
   formatRating (\<lambda>x. ''0.0'') (Num 0) \<noteq> ''0.0''"
  using zero_rating_shown_as_absent [of "\<lambda>x. ''0.0''"] by simp

text \<open>
  C10. Called while \<open>isLoading\<close> is true, with its bound check passing, \<open>goToPage\<close> moves
  the cursor by one and fetches nothing. So when a load is under way for the page of the
  cursor and \<open>goToPage('next')\<close> is then called, the results rendered on completion are
  those requested for the old page while the cursor is one further.
\<close>

theorem goToPage_moves_cursor_while_loading:
  "(isLoading s \<and> currentPage s < totalPages s \<longrightarrow>
      goToPage tok ''next'' s = (s\<lparr>currentPage := currentPage s + 1\<rparr>, [ScrollToTop], None)) \<and>
   (isLoading s \<and> currentPage s > 1 \<longrightarrow>
      goToPage tok ''prev'' s = (s\<lparr>currentPage := currentPage s - 1\<rparr>, [ScrollToTop], None)) \<and>
   (\<not> isLoading s \<and> currentPage s < totalPages s \<and> t \<noteq> [] \<longrightarrow>
      (\<exists>s1 effs req.
         loadMovies_begin (Some t) s = (s1, effs, Some (Inr req)) \<and>
         map_of (query req) ''page'' = Some (PNum (currentPage s)) \<and>
         snd (snd (goToPage (Some t) ''next'' s1)) = None \<and>
         currentPage (fst (loadMovies_resume (fst (goToPage (Some t) ''next'' s1)) (Inr data)))
           = currentPage s + 1 \<and>
         RenderMovies (results data)
           \<in> set (snd (loadMovies_resume (fst (goToPage (Some t) ''next'' s1)) (Inr data)))))"
  by (simp add: goToPage_def loadMovies_begin_def fetchFromTMDB_begin_def loadMovies_params_def
      Let_def)

theorem goToPage_moves_cursor_while_loading_witness:
  "isLoading (initial_state\<lparr>currentPage := 2, totalPages := 5, isLoading := True\<rparr>) \<and>
   goToPage (Some ''k'') ''next'' (initial_state\<lparr>currentPage := 2, totalPages := 5, isLoading := True\<rparr>)
     = (initial_state\<lparr>currentPage := 3, totalPages := 5, isLoading := True\<rparr>, [ScrollToTop], None) \<and>
   goToPage (Some ''k'') ''prev'' (initial_state\<lparr>currentPage := 2, totalPages := 5, isLoading := True\<rparr>)
     = (initial_state\<lparr>currentPage := 1, totalPages := 5, isLoading := True\<rparr>, [ScrollToTop], None) \<and>
   (\<exists>s1 effs req.
      loadMovies_begin (Some ''k'') (initial_state\<lparr>totalPages := 5\<rparr>) = (s1, effs, Some (Inr req)) \<and>
      map_of (query req) ''page'' = Some (PNum 1) \<and>
      currentPage (fst (loadMovies_resume (fst (goToPage (Some ''k'') ''next'' s1))
        (Inr \<lparr>results = Some [], total_pages = Some 5\<rparr>))) = 2)"
  using goToPage_moves_cursor_while_loading
    [of "initial_state\<lparr>currentPage := 2, totalPages := 5, isLoading := True\<rparr>" "Some ''k''"]
    goToPage_moves_cursor_while_loading
    [of "initial_state\<lparr>totalPages := 5\<rparr>" _ "''k''" "\<lparr>results = Some [], total_pages = Some 5\<rparr>"]
  by (simp add: initial_state_def) blast

end
